theory Spec2Isabelle
  imports Main "HOL-Library.Word"
begin

unbundle bit_operations_syntax

section \<open>Data model of \<^verbatim>\<open>src/core/enum_type.hpp\<close>\<close>

text \<open>
  An enum value is represented by its underlying value: \<^verbatim>\<open>to_underlying\<close> is a
  \<^verbatim>\<open>static_cast\<close> to the underlying type, and every operation of the header goes through
  it. The enums the bit-set is used with have non-negative underlying values, so the
  argument of \<^verbatim>\<open>Set\<close>, \<^verbatim>\<open>Reset\<close>, \<^verbatim>\<open>Flip\<close> and \<^verbatim>\<open>Test\<close> is a \<open>nat\<close>: the bit position.

  The template parameters of \<^verbatim>\<open>EnumBitSet<Tenum, Tstorage, Tend_value>\<close>:
  \<^item> \<^verbatim>\<open>Tstorage\<close> is the type parameter of the record; the operations are defined for
    an unsigned integer type of \<open>LENGTH('a)\<close> bits, the word type \<open>'a word\<close>
    (\<^verbatim>\<open>std::numeric_limits<Tstorage>::digits\<close> is \<open>LENGTH('a)\<close>);
  \<^item> \<^verbatim>\<open>to_underlying(Tend_value)\<close> is the parameter \<open>e\<close> of the operations that read
    \<^verbatim>\<open>MASK\<close>.
  The header computes \<^verbatim>\<open>1ULL << to_underlying(value)\<close> in \<^verbatim>\<open>unsigned long long\<close>, 64 bits,
  and converts the result of \<^verbatim>\<open>|=\<close> and \<^verbatim>\<open>&=\<close> back to \<^verbatim>\<open>Tstorage\<close>; the model keeps
  both conversions.

  Undefined behaviour of the C++: a shift \<^verbatim>\<open>1ULL << n\<close> with \<open>n\<close> of 64 or more; and, in
  the initialiser of \<^verbatim>\<open>MASK\<close>, a shift count \<^verbatim>\<open>digits - to_underlying(Tend_value)\<close> that
  is negative (an end value above the width) or as large as the promoted left operand
  (end value 0 with a 32- or 64-bit storage type); the latter two are rejected when the
  template is instantiated, \<^verbatim>\<open>MASK\<close> being a constant expression. The model's
  \<open>push_bit\<close> and \<open>drop_bit\<close> are total: \<open>push_bit n 1\<close> is 0 from 64 on, and
  \<open>MASK e\<close> is all ones for an end value above the width. The results that depend on the
  value of a shift are stated for storage types of at most 64 bits and for the values they
  name.
\<close>

type_synonym ull = "64 word"

record 'storage EnumBitSet =
  data :: 'storage

text \<open>
  \<^verbatim>\<open>static constexpr Tstorage MASK = std::numeric_limits<Tstorage>::max() >>
  (std::numeric_limits<Tstorage>::digits - to_underlying(Tend_value));\<close>
\<close>

definition MASK :: "nat \<Rightarrow> 'a :: len word" where
  "MASK e = drop_bit (LENGTH('a) - e) (- 1)"

subsection \<open>Constructors\<close>

text \<open>\<^verbatim>\<open>constexpr EnumBitSet() : data(0) {}\<close>\<close>

definition EnumBitSet_default :: "'a :: len word EnumBitSet" where
  "EnumBitSet_default = \<lparr>data = 0\<rparr>"

text \<open>\<^verbatim>\<open>explicit constexpr EnumBitSet(Tstorage data) : data(data & MASK) {}\<close>\<close>

definition EnumBitSet_raw :: "nat \<Rightarrow> 'a :: len word \<Rightarrow> 'a word EnumBitSet" where
  "EnumBitSet_raw e r = \<lparr>data = r AND MASK e\<rparr>"

subsection \<open>Mutators and queries\<close>

text \<open>\<^verbatim>\<open>this->data |= (1ULL << to_underlying(value)); return *this;\<close>\<close>

definition Set :: "'a :: len word EnumBitSet \<Rightarrow> nat \<Rightarrow> 'a word EnumBitSet" where
  "Set s v = s\<lparr>data := ucast ((ucast (data s) :: ull) OR push_bit v 1)\<rparr>"

text \<open>\<^verbatim>\<open>this->data &= ~(1ULL << to_underlying(value)); return *this;\<close>\<close>

definition Reset :: "'a :: len word EnumBitSet \<Rightarrow> nat \<Rightarrow> 'a word EnumBitSet" where
  "Reset s v = s\<lparr>data := ucast ((ucast (data s) :: ull) AND NOT (push_bit v 1))\<rparr>"

text \<open>\<^verbatim>\<open>return (this->data & (1ULL << to_underlying(value))) != 0;\<close>\<close>

definition Test :: "'a :: len word EnumBitSet \<Rightarrow> nat \<Rightarrow> bool" where
  "Test s v = (((ucast (data s) :: ull) AND push_bit v 1) \<noteq> 0)"

text \<open>\<^verbatim>\<open>if (this->Test(value)) return this->Reset(value); else return this->Set(value);\<close>\<close>

definition Flip :: "'a :: len word EnumBitSet \<Rightarrow> nat \<Rightarrow> 'a word EnumBitSet" where
  "Flip s v = (if Test s v then Reset s v else Set s v)"

text \<open>\<^verbatim>\<open>constexpr EnumBitSet(Tenum value) : data(0) { this->Set(value); }\<close>\<close>

definition EnumBitSet_value :: "nat \<Rightarrow> 'a :: len word EnumBitSet" where
  "EnumBitSet_value v = Set \<lparr>data = 0\<rparr> v"

text \<open>
  \<^verbatim>\<open>constexpr EnumBitSet(std::initializer_list<const Tenum> values) : data(0)
  { for (const Tenum &value : values) { this->Set(value); } }\<close>:
  the loop, then the constructor that starts it at \<open>data = 0\<close>.
\<close>

primrec set_each :: "'a :: len word EnumBitSet \<Rightarrow> nat list \<Rightarrow> 'a word EnumBitSet" where
  "set_each s [] = s"
| "set_each s (v # vs) = set_each (Set s v) vs"

definition EnumBitSet_list :: "nat list \<Rightarrow> 'a :: len word EnumBitSet" where
  "EnumBitSet_list vs = set_each \<lparr>data = 0\<rparr> vs"

text \<open>\<^verbatim>\<open>return (this->data & other.data) == other.data;\<close>\<close>

definition All_set :: "'a :: len word EnumBitSet \<Rightarrow> 'a word EnumBitSet \<Rightarrow> bool" where
  "All_set s other = ((data s AND data other) = data other)"

text \<open>\<^verbatim>\<open>return (this->data & other.data) != 0;\<close>\<close>

definition Any_set :: "'a :: len word EnumBitSet \<Rightarrow> 'a word EnumBitSet \<Rightarrow> bool" where
  "Any_set s other = ((data s AND data other) \<noteq> 0)"

text \<open>\<^verbatim>\<open>return EnumBitSet{static_cast<Tstorage>(this->data | other.data)};\<close>\<close>

definition operator_or :: "nat \<Rightarrow> 'a :: len word EnumBitSet \<Rightarrow> 'a word EnumBitSet \<Rightarrow> 'a word EnumBitSet" where
  "operator_or e s other = EnumBitSet_raw e (data s OR data other)"

text \<open>\<^verbatim>\<open>return EnumBitSet{static_cast<Tstorage>(this->data & other.data)};\<close>\<close>

definition operator_and :: "nat \<Rightarrow> 'a :: len word EnumBitSet \<Rightarrow> 'a word EnumBitSet \<Rightarrow> 'a word EnumBitSet" where
  "operator_and e s other = EnumBitSet_raw e (data s AND data other)"

text \<open>\<^verbatim>\<open>return (this->data & MASK) == this->data;\<close>\<close>

definition IsValid :: "nat \<Rightarrow> 'a :: len word EnumBitSet \<Rightarrow> bool" where
  "IsValid e s = ((data s AND MASK e) = data s)"

text \<open>\<^verbatim>\<open>return this->data;\<close>\<close>

definition base :: "'a :: len word EnumBitSet \<Rightarrow> 'a word" where
  "base s = data s"

subsection \<open>Comparison\<close>

text \<open>
  \<^verbatim>\<open>constexpr auto operator <=>(const EnumBitSet &) const noexcept = default;\<close>
  The defaulted three-way comparison compares the only member, \<^verbatim>\<open>data\<close>, an unsigned
  integer, and gives a \<^verbatim>\<open>std::strong_ordering\<close>; the \<^verbatim>\<open>operator==\<close> it declares compares
  \<^verbatim>\<open>data\<close> for equality.
\<close>

datatype strong_ordering = ordering_less | ordering_equal | ordering_greater

definition operator_cmp :: "'a :: len word EnumBitSet \<Rightarrow> 'a word EnumBitSet \<Rightarrow> strong_ordering" where
  "operator_cmp a b =
     (if data a = data b then ordering_equal
      else if data a < data b then ordering_less else ordering_greater)"

definition operator_eq :: "'a :: len word EnumBitSet \<Rightarrow> 'a word EnumBitSet \<Rightarrow> bool" where
  "operator_eq a b = (data a = data b)"

subsection \<open>Increment and decrement of enum values\<close>

text \<open>
  The operators exist only for an enum type whose \<^verbatim>\<open>is_enum_incrementable\<close> trait is
  true (\<^verbatim>\<open>DECLARE_INCREMENT_DECREMENT_OPERATORS\<close>). The enum value is its underlying value, a
  word of the underlying type's width: \<^verbatim>\<open>static_cast<enum_type>(to_underlying(e) + 1)\<close>
  converts the sum back to the underlying type. An operator takes the variable's value
  and returns the pair of the variable's new value and the value the operator returns
  (for a prefix form, the reference to the variable just written).
\<close>

definition prefix_inc :: "'a :: len word \<Rightarrow> 'a word \<times> 'a word" where
  "prefix_inc e = (let e' = e + 1 in (e', e'))"

definition postfix_inc :: "'a :: len word \<Rightarrow> 'a word \<times> 'a word" where
  "postfix_inc e = (let e_org = e; e' = fst (prefix_inc e) in (e', e_org))"

definition prefix_dec :: "'a :: len word \<Rightarrow> 'a word \<times> 'a word" where
  "prefix_dec e = (let e' = e - 1 in (e', e'))"

definition postfix_dec :: "'a :: len word \<Rightarrow> 'a word \<times> 'a word" where
  "postfix_dec e = (let e_org = e; e' = fst (prefix_dec e) in (e', e_org))"

subsection \<open>Bit-sets built through the public interface with valid values\<close>

text \<open>
  The bit-sets of end value \<open>e\<close> that the public interface produces when every enum value
  handed to a constructor, to \<^verbatim>\<open>Set\<close> and to \<^verbatim>\<open>Flip\<close> is valid, that is below \<open>e\<close>.
  \<^verbatim>\<open>Reset\<close> takes any value whose shift is defined, and the raw-storage constructor any
  word.
\<close>

inductive public_api :: "nat \<Rightarrow> 'a :: len word EnumBitSet \<Rightarrow> bool" for e :: nat where
  by_default: "public_api e EnumBitSet_default"
| by_value: "v < e \<Longrightarrow> public_api e (EnumBitSet_value v)"
| by_list: "\<forall>v \<in> set vs. v < e \<Longrightarrow> public_api e (EnumBitSet_list vs)"
| by_raw: "public_api e (EnumBitSet_raw e r)"
| by_Set: "public_api e s \<Longrightarrow> v < e \<Longrightarrow> public_api e (Set s v)"
| by_Reset: "public_api e s \<Longrightarrow> v < 64 \<Longrightarrow> public_api e (Reset s v)"
| by_Flip: "public_api e s \<Longrightarrow> v < e \<Longrightarrow> public_api e (Flip s v)"
| by_or: "public_api e s \<Longrightarrow> public_api e t \<Longrightarrow> public_api e (operator_or e s t)"
| by_and: "public_api e s \<Longrightarrow> public_api e t \<Longrightarrow> public_api e (operator_and e s t)"

subsection \<open>The compass enum of the scenario\<close>

text \<open>
  The enum \<^verbatim>\<open>{North=0, East=1, South=2, West=3}\<close> of the scenario, by underlying value. Its
  bit-set is \<^verbatim>\<open>EnumBitSet<Compass, uint8_t, West + 1>\<close>: storage \<open>8 word\<close>, end value
  \<open>West + 1\<close>.
\<close>

definition North :: nat where "North = 0"
definition East :: nat where "East = 1"
definition South :: nat where "South = 2"
definition West :: nat where "West = 3"

section \<open>The storage word, bit by bit\<close>

lemma bit_MASK: "bit (MASK e :: 'a :: len word) n \<longleftrightarrow> n < LENGTH('a) \<and> n < e"
  by (auto simp add: MASK_def bit_simps)

lemma IsValid_iff: "IsValid e s \<longleftrightarrow> (\<forall>n. bit (data s) n \<longrightarrow> n < e)"
  unfolding IsValid_def
  by (auto simp add: bit_eq_iff bit_and_iff bit_MASK dest: bit_imp_le_length)

text \<open>
  \<^verbatim>\<open>Test\<close> reads bit \<open>v\<close> of the storage word; the 64-bit intermediate has no bit at
  position 64 or above.
\<close>

lemma Test_iff: "Test (s :: 'a :: len word EnumBitSet) v \<longleftrightarrow> v < 64 \<and> bit (data s) v"
proof -
  have "Test s v \<longleftrightarrow> bit (ucast (data s) :: ull) v"
    unfolding Test_def by (simp add: and_exp_eq_0_iff_not_bit)
  then show ?thesis
    by (auto simp add: bit_simps)
qed

text \<open>
  For a storage type of at most 64 bits, widening to \<^verbatim>\<open>unsigned long long\<close> and
  narrowing back loses nothing of \<^verbatim>\<open>data\<close>; what is lost is a bit of the shifted one at a
  position the storage type does not have.
\<close>

lemma Set_data:
  assumes "LENGTH('a :: len) \<le> 64"
  shows "data (Set (s :: 'a word EnumBitSet) v) = data s OR push_bit v 1"
  unfolding Set_def using assms
  by (auto intro!: bit_word_eqI simp add: bit_simps)

lemma Reset_data:
  assumes "LENGTH('a :: len) \<le> 64"
  shows "data (Reset (s :: 'a word EnumBitSet) v) = data s AND NOT (push_bit v 1)"
  unfolding Reset_def using assms
  by (auto intro!: bit_word_eqI simp add: bit_simps)

lemma bit_Set:
  assumes "LENGTH('a :: len) \<le> 64"
  shows "bit (data (Set (s :: 'a word EnumBitSet) v)) n
    \<longleftrightarrow> bit (data s) n \<or> (n = v \<and> v < LENGTH('a))"
  using assms by (auto simp add: Set_data bit_simps)

lemma bit_Reset:
  assumes "LENGTH('a :: len) \<le> 64"
  shows "bit (data (Reset (s :: 'a word EnumBitSet) v)) n \<longleftrightarrow> bit (data s) n \<and> n \<noteq> v"
  using assms by (auto simp add: Reset_data bit_simps dest: bit_imp_le_length)

lemma EnumBitSet_eqI:
  fixes s t :: "'a :: len word EnumBitSet"
  assumes "\<And>n. bit (data s) n \<longleftrightarrow> bit (data t) n"
  shows "s = t"
  using assms by (simp add: bit_eq_iff)

lemma operator_eq_iff: "operator_eq a b \<longleftrightarrow> a = b"
  by (cases a, cases b) (simp add: operator_eq_def)

section \<open>Validity is kept by the operations\<close>

lemma IsValid_empty: "IsValid e \<lparr>data = 0\<rparr>"
  by (simp add: IsValid_def)

lemma IsValid_raw: "IsValid e (EnumBitSet_raw e r)"
  by (simp add: IsValid_def EnumBitSet_raw_def and.assoc)

lemma IsValid_Set:
  fixes s :: "'a :: len word EnumBitSet"
  assumes "LENGTH('a) \<le> 64" and "IsValid e s" and "v < e"
  shows "IsValid e (Set s v)"
  using assms by (auto simp add: IsValid_iff bit_Set)

lemma IsValid_Reset:
  fixes s :: "'a :: len word EnumBitSet"
  assumes "LENGTH('a) \<le> 64" and "IsValid e s"
  shows "IsValid e (Reset s v)"
  using assms by (auto simp add: IsValid_iff bit_Reset)

lemma IsValid_set_each:
  fixes s :: "'a :: len word EnumBitSet"
  assumes "LENGTH('a) \<le> 64"
  shows "IsValid e s \<Longrightarrow> \<forall>v \<in> set vs. v < e \<Longrightarrow> IsValid e (set_each s vs)"
proof (induction vs arbitrary: s)
  case Nil
  then show ?case by simp
next
  case (Cons v vs)
  then show ?case by (simp add: IsValid_Set [OF assms])
qed

section \<open>The loop of the list constructor\<close>

lemma set_each_foldl: "set_each s vs = foldl Set s vs"
  by (induction vs arbitrary: s) simp_all

lemma bit_set_each:
  fixes s :: "'a :: len word EnumBitSet"
  assumes "LENGTH('a) \<le> 64"
  shows "bit (data (set_each s vs)) n
    \<longleftrightarrow> bit (data s) n \<or> (n \<in> set vs \<and> n < LENGTH('a))"
  by (induction vs arbitrary: s) (auto simp add: bit_Set [OF assms])

section \<open>The masking invariant\<close>

text \<open>
  Claim C1, as stated: every bit-set reachable through the public interface, the mutators
  and the constructors called with any enum value, satisfies \<open>data AND MASK = data\<close>.
  This fails: \<^verbatim>\<open>Set\<close> does not mask, so with \<^verbatim>\<open>uint8_t\<close> storage and end value 4,
  \<^verbatim>\<open>Set\<close> of the enum value 4 (the end value itself) on the empty bit-set stores bit 4; so
  do the single-value constructor and \<^verbatim>\<open>Flip\<close>.
\<close>

theorem Set_beyond_end_counterexample:
  "\<not> IsValid 4 (Set (EnumBitSet_default :: 8 word EnumBitSet) 4)
   \<and> data (Set (EnumBitSet_default :: 8 word EnumBitSet) 4) AND MASK 4
       \<noteq> data (Set (EnumBitSet_default :: 8 word EnumBitSet) 4)
   \<and> \<not> IsValid 4 (EnumBitSet_value 4 :: 8 word EnumBitSet)
   \<and> \<not> IsValid 4 (Flip (EnumBitSet_raw 4 1 :: 8 word EnumBitSet) 4)"
  by (simp add: IsValid_def Set_def Flip_def Test_def EnumBitSet_raw_def EnumBitSet_value_def
      EnumBitSet_default_def MASK_def mask_eq_exp_minus_1)

text \<open>
  Claim C1, amended: for a storage type of at most 64 bits, every bit-set reachable
  through the public interface (default construction, construction from one enum value,
  from a list of enum values or from a raw storage word, then any sequence of \<^verbatim>\<open>Set\<close>,
  \<^verbatim>\<open>Reset\<close>, \<^verbatim>\<open>Flip\<close>, \<^verbatim>\<open>operator|\<close> and \<^verbatim>\<open>operator&\<close>) in which every enum value given to a
  constructor, to \<^verbatim>\<open>Set\<close> and to \<^verbatim>\<open>Flip\<close> is valid (below the end value) satisfies
  \<open>data AND MASK = data\<close>: \<^verbatim>\<open>IsValid()\<close> is true and no bit at or above the end value is
  set in \<^verbatim>\<open>base()\<close>.
\<close>

theorem public_api_IsValid:
  fixes s :: "'a :: len word EnumBitSet"
  assumes len: "LENGTH('a) \<le> 64" and api: "public_api e s"
  shows "IsValid e s \<and> data s AND MASK e = data s \<and> (\<forall>n. bit (base s) n \<longrightarrow> n < e)"
proof -
  from api have "IsValid e s"
  proof (induction rule: public_api.induct)
    case by_default
    show ?case by (simp add: EnumBitSet_default_def IsValid_empty)
  next
    case (by_value v)
    then show ?case by (simp add: EnumBitSet_value_def IsValid_Set [OF len] IsValid_empty)
  next
    case (by_list vs)
    then show ?case by (simp add: EnumBitSet_list_def IsValid_set_each [OF len] IsValid_empty)
  next
    case (by_raw r)
    show ?case by (rule IsValid_raw)
  next
    case (by_Set s v)
    then show ?case by (simp add: IsValid_Set [OF len])
  next
    case (by_Reset s v)
    then show ?case by (simp add: IsValid_Reset [OF len])
  next
    case (by_Flip s v)
    then show ?case by (simp add: Flip_def IsValid_Set [OF len] IsValid_Reset [OF len])
  next
    case (by_or s t)
    show ?case by (simp add: operator_or_def IsValid_raw)
  next
    case (by_and s t)
    show ?case by (simp add: operator_and_def IsValid_raw)
  qed
  then show ?thesis
    by (simp add: IsValid_iff [symmetric] base_def) (simp add: IsValid_def)
qed

theorem public_api_IsValid_witness:
  "IsValid 4 (operator_or 4 (Flip (Set (EnumBitSet_default :: 8 word EnumBitSet) 0) 2)
      (Reset (EnumBitSet_list [1, 3, 1]) 3))
   \<and> base (operator_or 4 (Flip (Set (EnumBitSet_default :: 8 word EnumBitSet) 0) 2)
      (Reset (EnumBitSet_list [1, 3, 1]) 3)) = 7"
proof -
  have "public_api 4 (operator_or 4 (Flip (Set (EnumBitSet_default :: 8 word EnumBitSet) 0) 2)
      (Reset (EnumBitSet_list [1, 3, 1]) 3))"
    by (intro public_api.intros) simp_all
  from public_api_IsValid [OF _ this]
  have "IsValid 4 (operator_or 4 (Flip (Set (EnumBitSet_default :: 8 word EnumBitSet) 0) 2)
      (Reset (EnumBitSet_list [1, 3, 1]) 3))"
    by simp
  moreover
  have "base (operator_or 4 (Flip (Set (EnumBitSet_default :: 8 word EnumBitSet) 0) 2)
      (Reset (EnumBitSet_list [1, 3, 1]) 3)) = 7"
    by (simp add: base_def operator_or_def EnumBitSet_raw_def Flip_def Test_def Set_def Reset_def
        EnumBitSet_default_def EnumBitSet_list_def MASK_def mask_eq_exp_minus_1)
  ultimately show ?thesis by simp
qed

section \<open>The raw-storage constructor\<close>

text \<open>
  Claim C2. For every raw storage word \<open>r\<close>, also one with bits above the valid range,
  the bit-set constructed from \<open>r\<close> has \<^verbatim>\<open>base()\<close> equal to \<open>r AND MASK\<close>: bit \<open>n\<close> of it
  is set exactly when bit \<open>n\<close> of \<open>r\<close> is set and \<open>n\<close> is below the end value. \<^verbatim>\<open>IsValid()\<close>
  is true of it. For instance \<^verbatim>\<open>0xF5\<close> in a \<^verbatim>\<open>uint8_t\<close> with end value 4 is stored as
  \<^verbatim>\<open>0x05\<close>.
\<close>

theorem raw_constructor_masks:
  fixes r :: "'a :: len word"
  shows "base (EnumBitSet_raw e r) = r AND MASK e
    \<and> (\<forall>n. bit (base (EnumBitSet_raw e r)) n \<longleftrightarrow> bit r n \<and> n < e)
    \<and> IsValid e (EnumBitSet_raw e r)
    \<and> base (EnumBitSet_raw 4 (0xF5 :: 8 word)) = 0x05"
proof -
  have b: "base (EnumBitSet_raw e r) = r AND MASK e"
    by (simp add: base_def EnumBitSet_raw_def)
  have bits: "\<forall>n. bit (base (EnumBitSet_raw e r)) n \<longleftrightarrow> bit r n \<and> n < e"
    by (auto simp add: b bit_and_iff bit_MASK dest: bit_imp_le_length)
  have ex: "base (EnumBitSet_raw 4 (0xF5 :: 8 word)) = 0x05"
    by (simp add: base_def EnumBitSet_raw_def MASK_def mask_eq_exp_minus_1)
  from b bits IsValid_raw [of e r] ex show ?thesis by blast
qed

section \<open>The compass scenario\<close>

text \<open>
  Claim C3. For the enum \<^verbatim>\<open>{North=0, East=1, South=2, West=3}\<close> with an 8-bit storage
  type and end value \<^verbatim>\<open>West + 1\<close>: \<^verbatim>\<open>MASK\<close> is \<^verbatim>\<open>0b00001111\<close>; after \<^verbatim>\<open>Set(North)\<close> and
  \<^verbatim>\<open>Set(South)\<close> on the empty bit-set, \<^verbatim>\<open>base()\<close> is \<^verbatim>\<open>0b00000101\<close>, \<^verbatim>\<open>Test(East)\<close> is false,
  \<^verbatim>\<open>All({North, South})\<close> is true and \<^verbatim>\<open>Any({East, West})\<close> is false.
\<close>

theorem compass_scenario:
  "(MASK (West + 1) :: 8 word) = 0x0F
   \<and> base (Set (Set (EnumBitSet_default :: 8 word EnumBitSet) North) South) = 0x05
   \<and> \<not> Test (Set (Set (EnumBitSet_default :: 8 word EnumBitSet) North) South) East
   \<and> All_set (Set (Set (EnumBitSet_default :: 8 word EnumBitSet) North) South)
        (EnumBitSet_list [North, South])
   \<and> \<not> Any_set (Set (Set (EnumBitSet_default :: 8 word EnumBitSet) North) South)
        (EnumBitSet_list [East, West])"
  by (simp add: North_def East_def South_def West_def MASK_def mask_eq_exp_minus_1
      base_def Set_def Test_def All_set_def Any_set_def EnumBitSet_default_def EnumBitSet_list_def)

section \<open>\<^verbatim>\<open>Set\<close> and \<^verbatim>\<open>Test\<close>\<close>

text \<open>
  Claim C4. For a storage type of at most 64 bits, an end value \<open>e\<close> of at most that many
  bits and every valid value \<open>v\<close> (\<open>v < e\<close>): the default-constructed bit-set has
  \<^verbatim>\<open>Test(v)\<close> false; and for every bit-set \<open>s\<close>, after \<^verbatim>\<open>s.Set(v)\<close>, \<^verbatim>\<open>Test(v)\<close> is true and
  \<^verbatim>\<open>Test(w)\<close> is what it was before, for every other valid value \<open>w\<close>.
\<close>

theorem Set_Test_frame:
  fixes s :: "'a :: len word EnumBitSet"
  assumes "LENGTH('a) \<le> 64" and "e \<le> LENGTH('a)" and "v < e"
  shows "\<not> Test (EnumBitSet_default :: 'a word EnumBitSet) v
    \<and> Test (Set s v) v
    \<and> (\<forall>w. w < e \<and> w \<noteq> v \<longrightarrow> Test (Set s v) w = Test s w)"
  using assms by (auto simp add: Test_iff bit_Set EnumBitSet_default_def)

theorem Set_Test_frame_witness:
  "\<not> Test (EnumBitSet_default :: 8 word EnumBitSet) 2
   \<and> Test (Set (EnumBitSet_value 1 :: 8 word EnumBitSet) 2) 2
   \<and> Test (Set (EnumBitSet_value 1 :: 8 word EnumBitSet) 2) 1
       = Test (EnumBitSet_value 1 :: 8 word EnumBitSet) 1
   \<and> Test (Set (EnumBitSet_value 1 :: 8 word EnumBitSet) 2) 3
       = Test (EnumBitSet_value 1 :: 8 word EnumBitSet) 3"
  using Set_Test_frame [where 'a = 8 and e = 4 and v = 2 and s = "EnumBitSet_value 1"]
  by simp

section \<open>Comparison of bit-sets\<close>

text \<open>
  Claim C5, as stated: two bit-sets are equal iff their storage words are equal after
  masking. This fails: the comparison is the defaulted one, on \<^verbatim>\<open>data\<close> as it is. With
  \<^verbatim>\<open>uint8_t\<close> storage and end value 4, the bit-set after \<^verbatim>\<open>Set\<close> of the value 4 holds
  \<^verbatim>\<open>0x10\<close> and differs from the empty bit-set, while both words are 0 after masking.
\<close>

theorem equal_after_masking_counterexample:
  "\<not> (operator_eq (Set (EnumBitSet_default :: 8 word EnumBitSet) 4) EnumBitSet_default
       \<longleftrightarrow> data (Set (EnumBitSet_default :: 8 word EnumBitSet) 4) AND MASK 4
           = data (EnumBitSet_default :: 8 word EnumBitSet) AND MASK 4)"
  by (simp add: operator_eq_def Set_def EnumBitSet_default_def MASK_def mask_eq_exp_minus_1)

text \<open>
  Claim C5, amended: bit-sets are totally ordered, compared by their raw storage word as
  an unsigned integer (exactly one of less, equal and greater holds, greater is less
  with the operands exchanged, less is transitive), and two bit-sets are equal iff their
  storage words are equal; for two bit-sets on which \<^verbatim>\<open>IsValid()\<close> is true this is the
  same as equality of the storage words after masking.
\<close>

theorem comparison_by_storage_word:
  fixes a b c :: "'a :: len word EnumBitSet"
  shows "(operator_cmp a b = ordering_less \<longleftrightarrow> unat (data a) < unat (data b))
    \<and> (operator_cmp a b = ordering_equal \<longleftrightarrow> data a = data b)
    \<and> (operator_cmp a b = ordering_greater \<longleftrightarrow> unat (data b) < unat (data a))
    \<and> (operator_cmp a b = ordering_greater \<longleftrightarrow> operator_cmp b a = ordering_less)
    \<and> (operator_cmp a b = ordering_less \<and> operator_cmp b c = ordering_less
          \<longrightarrow> operator_cmp a c = ordering_less)
    \<and> (operator_eq a b \<longleftrightarrow> operator_cmp a b = ordering_equal)
    \<and> (operator_eq a b \<longleftrightarrow> data a = data b)
    \<and> (IsValid e a \<and> IsValid e b
          \<longrightarrow> (operator_eq a b \<longleftrightarrow> data a AND MASK e = data b AND MASK e))"
  by (auto simp add: operator_cmp_def operator_eq_def IsValid_def word_less_nat_alt
      word_unat_eq_iff)

theorem comparison_by_storage_word_witness:
  "operator_cmp (EnumBitSet_raw 4 3 :: 8 word EnumBitSet) (EnumBitSet_raw 4 5) = ordering_less
   \<and> operator_cmp (EnumBitSet_raw 4 5 :: 8 word EnumBitSet) (EnumBitSet_raw 4 9) = ordering_less
   \<and> operator_cmp (EnumBitSet_raw 4 3 :: 8 word EnumBitSet) (EnumBitSet_raw 4 9) = ordering_less
   \<and> IsValid 4 (EnumBitSet_raw 4 3 :: 8 word EnumBitSet)
   \<and> IsValid 4 (EnumBitSet_raw 4 5 :: 8 word EnumBitSet)
   \<and> operator_eq (EnumBitSet_raw 4 3 :: 8 word EnumBitSet) (EnumBitSet_raw 4 5)
       = (data (EnumBitSet_raw 4 3 :: 8 word EnumBitSet) AND MASK 4
          = data (EnumBitSet_raw 4 5 :: 8 word EnumBitSet) AND MASK 4)"
  using comparison_by_storage_word [where 'a = 8 and e = 4 and a = "EnumBitSet_raw 4 3"
      and b = "EnumBitSet_raw 4 5" and c = "EnumBitSet_raw 4 9"]
  by (simp add: operator_cmp_def EnumBitSet_raw_def MASK_def mask_eq_exp_minus_1 IsValid_def)

section \<open>Union and intersection\<close>

text \<open>
  Claim C6, as stated: \<open>(a | b) & a == a\<close> for arbitrary \<open>a\<close> and \<open>b\<close>. This fails:
  both operators build their result with the masking constructor, so the left side is
  \<open>a\<close> without its bits at or above the end value. With \<^verbatim>\<open>uint8_t\<close> storage and end value
  4, for \<open>a\<close> the bit-set after \<^verbatim>\<open>Set\<close> of the value 4 and \<open>b\<close> empty, \<open>(a | b) & a\<close> is empty
  and \<open>a\<close> is not.
\<close>

theorem absorption_counterexample:
  "\<not> operator_eq
      (operator_and 4
        (operator_or 4 (Set (EnumBitSet_default :: 8 word EnumBitSet) 4) EnumBitSet_default)
        (Set (EnumBitSet_default :: 8 word EnumBitSet) 4))
      (Set (EnumBitSet_default :: 8 word EnumBitSet) 4)"
  by (simp add: operator_eq_def operator_and_def operator_or_def EnumBitSet_raw_def Set_def
      EnumBitSet_default_def MASK_def mask_eq_exp_minus_1)

text \<open>
  Claim C6, amended: \<^verbatim>\<open>operator|\<close> and \<^verbatim>\<open>operator&\<close> are each commutative and associative
  for arbitrary operands; \<open>(a | b) & a\<close> is the bit-set the raw-storage constructor builds
  from the storage word of \<open>a\<close>, for arbitrary \<open>a\<close> and \<open>b\<close>, and so
  \<open>(a | b) & a == a\<close> holds for arbitrary \<open>b\<close> and every \<open>a\<close> on which \<^verbatim>\<open>IsValid()\<close> is
  true. (Equality of bit-sets is equality of the storage words, which is what
  \<^verbatim>\<open>operator==\<close> tests.)
\<close>

theorem or_and_algebra:
  fixes a b c :: "'a :: len word EnumBitSet"
  shows "operator_or e a b = operator_or e b a
    \<and> operator_and e a b = operator_and e b a
    \<and> operator_or e (operator_or e a b) c = operator_or e a (operator_or e b c)
    \<and> operator_and e (operator_and e a b) c = operator_and e a (operator_and e b c)
    \<and> operator_and e (operator_or e a b) a = EnumBitSet_raw e (data a)
    \<and> (IsValid e a \<longrightarrow> operator_and e (operator_or e a b) a = a)"
proof -
  have comm: "operator_or e a b = operator_or e b a" "operator_and e a b = operator_and e b a"
    by (simp_all add: operator_or_def operator_and_def EnumBitSet_raw_def ac_simps)
  have or_assoc: "operator_or e (operator_or e a b) c = operator_or e a (operator_or e b c)"
    unfolding operator_or_def EnumBitSet_raw_def
    by (auto intro!: bit_word_eqI simp add: bit_simps)
  have and_assoc: "operator_and e (operator_and e a b) c = operator_and e a (operator_and e b c)"
    unfolding operator_and_def EnumBitSet_raw_def
    by (auto intro!: bit_word_eqI simp add: bit_simps)
  have absorb: "operator_and e (operator_or e a b) a = EnumBitSet_raw e (data a)"
    unfolding operator_and_def operator_or_def EnumBitSet_raw_def
    by (auto intro!: bit_word_eqI simp add: bit_simps)
  have "operator_and e (operator_or e a b) a = a" if "IsValid e a"
  proof -
    from that have "EnumBitSet_raw e (data a) = a"
      by (cases a) (simp add: IsValid_def EnumBitSet_raw_def)
    with absorb show ?thesis by simp
  qed
  with comm or_assoc and_assoc absorb show ?thesis by blast
qed

theorem or_and_algebra_witness:
  "IsValid 4 (EnumBitSet_raw 4 5 :: 8 word EnumBitSet)
   \<and> operator_and 4
        (operator_or 4 (EnumBitSet_raw 4 5 :: 8 word EnumBitSet) (Set EnumBitSet_default 6))
        (EnumBitSet_raw 4 5) = EnumBitSet_raw 4 5"
  using or_and_algebra [where 'a = 8 and e = 4 and a = "EnumBitSet_raw 4 5"
      and b = "Set EnumBitSet_default 6"] IsValid_raw [of 4 "5 :: 8 word"]
  by blast

section \<open>\<^verbatim>\<open>Flip\<close>\<close>

text \<open>
  Claim C7. For a storage type of at most 64 bits, an end value \<open>e\<close> of at most that many
  bits, every bit-set \<open>s\<close> and every valid value \<open>v\<close> (\<open>v < e\<close>): \<^verbatim>\<open>Flip(v)\<close> twice in
  succession gives \<open>s\<close> back. (One \<^verbatim>\<open>Flip(v)\<close> does change the bit-set: it inverts
  \<^verbatim>\<open>Test(v)\<close>.)
\<close>

theorem Flip_twice:
  fixes s :: "'a :: len word EnumBitSet"
  assumes "LENGTH('a) \<le> 64" and "e \<le> LENGTH('a)" and "v < e"
  shows "Flip (Flip s v) v = s \<and> Test (Flip s v) v = (\<not> Test s v)"
proof -
  have "Flip (Flip s v) v = s"
    by (rule EnumBitSet_eqI) (use assms in \<open>auto simp add: Flip_def Test_iff bit_Set bit_Reset\<close>)
  moreover have "Test (Flip s v) v = (\<not> Test s v)"
    using assms by (auto simp add: Flip_def Test_iff bit_Set bit_Reset)
  ultimately show ?thesis by simp
qed

theorem Flip_twice_witness:
  "Flip (Flip (EnumBitSet_raw 4 5 :: 8 word EnumBitSet) 1) 1 = EnumBitSet_raw 4 5
   \<and> Test (Flip (EnumBitSet_raw 4 5 :: 8 word EnumBitSet) 1) 1
   \<and> \<not> Test (EnumBitSet_raw 4 5 :: 8 word EnumBitSet) 1"
  using Flip_twice [where 'a = 8 and e = 4 and v = 1 and s = "EnumBitSet_raw 4 5"]
  by (simp add: Test_def EnumBitSet_raw_def MASK_def mask_eq_exp_minus_1)

section \<open>The list constructor\<close>

text \<open>
  Claim C8. For a storage type of at most 64 bits and every list \<open>[a, b, c]\<close> of enum
  values, duplicates allowed, the bit-set constructed from the list is the empty bit-set
  after \<^verbatim>\<open>Set\<close> of \<open>a\<close>, \<open>b\<close> and \<open>c\<close> in that order; for a list of any length it is the
  empty bit-set after \<^verbatim>\<open>Set\<close> of each element in order. Duplicates are harmless: \<^verbatim>\<open>Set\<close> of
  a value already set changes nothing, and two lists with the same elements, whatever
  their order and repetitions, construct the same bit-set.
\<close>

theorem list_constructor_by_Set:
  fixes s :: "'a :: len word EnumBitSet"
  assumes "LENGTH('a) \<le> 64"
  shows "(EnumBitSet_list [a, b, c] :: 'a word EnumBitSet)
        = Set (Set (Set EnumBitSet_default a) b) c
    \<and> (EnumBitSet_list vs :: 'a word EnumBitSet) = foldl Set EnumBitSet_default vs
    \<and> Set (Set s a) a = Set s a
    \<and> (set vs = set ws \<longrightarrow> (EnumBitSet_list vs :: 'a word EnumBitSet) = EnumBitSet_list ws)"
proof -
  have three: "(EnumBitSet_list [a, b, c] :: 'a word EnumBitSet)
      = Set (Set (Set EnumBitSet_default a) b) c"
    by (simp add: EnumBitSet_list_def EnumBitSet_default_def)
  have every: "(EnumBitSet_list vs :: 'a word EnumBitSet) = foldl Set EnumBitSet_default vs"
    by (simp add: EnumBitSet_list_def EnumBitSet_default_def set_each_foldl)
  have idem: "Set (Set s a) a = Set s a"
    by (rule EnumBitSet_eqI) (auto simp add: bit_Set [OF assms])
  have "(EnumBitSet_list vs :: 'a word EnumBitSet) = EnumBitSet_list ws" if "set vs = set ws"
    by (rule EnumBitSet_eqI) (simp add: EnumBitSet_list_def bit_set_each [OF assms] that)
  with three every idem show ?thesis by blast
qed

theorem list_constructor_by_Set_witness:
  "(EnumBitSet_list [2, 0, 2] :: 8 word EnumBitSet)
      = Set (Set (Set EnumBitSet_default 2) 0) 2
   \<and> Set (Set (EnumBitSet_default :: 8 word EnumBitSet) 2) 2 = Set EnumBitSet_default 2
   \<and> (EnumBitSet_list [2, 0, 2] :: 8 word EnumBitSet) = EnumBitSet_list [0, 2]
   \<and> base (EnumBitSet_list [2, 0, 2] :: 8 word EnumBitSet) = 5"
proof -
  have len: "LENGTH(8) \<le> 64"
    by simp
  have val: "base (EnumBitSet_list [2, 0, 2] :: 8 word EnumBitSet) = 5"
    by (simp add: base_def EnumBitSet_list_def Set_def)
  have same: "set [2, 0, 2 :: nat] = set [0, 2]"
    by auto
  from list_constructor_by_Set [OF len, where a = 2 and b = 0 and c = 2
      and s = EnumBitSet_default and vs = "[2, 0, 2]" and ws = "[0, 2]"] same val
  show ?thesis by blast
qed

section \<open>Increment and decrement\<close>

text \<open>
  Claim C9. For an enum that has the increment and decrement operators, with \<open>n\<close>
  declared values \<open>0, ..., n - 1\<close> that fit its underlying type, and a value \<open>x\<close> strictly
  inside that range (\<open>0 < x\<close> and \<open>x + 1 < n\<close>): neither step leaves the range (the
  increment gives \<open>x + 1\<close> and the decrement \<open>x - 1\<close>, without wrap-around), prefix
  increment followed by prefix decrement leaves the variable at \<open>x\<close> and returns \<open>x\<close>,
  and each postfix form returns \<open>x\<close>, the value before the step, and leaves the variable
  as the prefix form of the same step does.
\<close>

theorem increment_then_decrement:
  fixes x :: "'a :: len word"
  assumes "0 < unat x" and "unat x + 1 < n" and "n \<le> 2 ^ LENGTH('a)"
  shows "fst (prefix_dec (fst (prefix_inc x))) = x
    \<and> snd (prefix_dec (fst (prefix_inc x))) = x
    \<and> unat (fst (prefix_inc x)) = unat x + 1
    \<and> unat (fst (prefix_dec x)) = unat x - 1
    \<and> snd (prefix_inc x) = fst (prefix_inc x)
    \<and> snd (prefix_dec x) = fst (prefix_dec x)
    \<and> postfix_inc x = (fst (prefix_inc x), x)
    \<and> postfix_dec x = (fst (prefix_dec x), x)"
proof -
  have up: "unat (x + 1) = unat x + 1"
    using assms by (simp add: unat_word_ariths)
  have "x \<noteq> 0"
    using assms(1) by auto
  then have down: "unat (x - 1) = unat x - 1"
    by (simp add: unat_minus_one)
  from up down show ?thesis
    by (simp add: prefix_inc_def prefix_dec_def postfix_inc_def postfix_dec_def Let_def)
qed

theorem increment_then_decrement_witness:
  "fst (prefix_dec (fst (prefix_inc (1 :: 8 word)))) = 1
   \<and> fst (prefix_inc (1 :: 8 word)) = 2
   \<and> fst (prefix_dec (1 :: 8 word)) = 0
   \<and> postfix_inc (1 :: 8 word) = (2, 1)
   \<and> postfix_dec (1 :: 8 word) = (0, 1)"
  using increment_then_decrement [where 'a = 8 and x = 1 and n = 3]
  by (simp add: prefix_inc_def prefix_dec_def Let_def)

section \<open>\<^verbatim>\<open>Set\<close> with a value at or above the end value\<close>

text \<open>
  Claim C10. \<^verbatim>\<open>Set\<close> does not mask. For a storage type of at most 64 bits and a value
  \<open>v\<close> with \<open>e \<le> v\<close> and \<open>v\<close> below the width of the storage type (so the end value
  \<open>e\<close> is smaller than the width), \<^verbatim>\<open>Set(v)\<close> on the empty bit-set gives a bit-set on which
  \<^verbatim>\<open>IsValid()\<close> is false and whose \<^verbatim>\<open>base()\<close> has a bit outside \<^verbatim>\<open>MASK\<close>; the raw-storage
  constructor, given the same bit, gives a valid bit-set.
\<close>

theorem Set_does_not_mask:
  assumes "LENGTH('a :: len) \<le> 64" and "e \<le> v" and "v < LENGTH('a)"
  shows "\<not> IsValid e (Set (EnumBitSet_default :: 'a word EnumBitSet) v)
    \<and> base (Set (EnumBitSet_default :: 'a word EnumBitSet) v) AND NOT (MASK e) \<noteq> 0
    \<and> IsValid e (EnumBitSet_raw e (push_bit v 1 :: 'a word))"
proof -
  let ?s = "Set (EnumBitSet_default :: 'a word EnumBitSet) v"
  have bv: "bit (data ?s) v"
    using assms by (simp add: bit_Set)
  have "\<not> IsValid e ?s"
    using bv assms by (auto simp add: IsValid_iff)
  moreover have "bit (base ?s AND NOT (MASK e)) v"
    using bv assms by (simp add: base_def bit_and_iff bit_not_iff bit_MASK)
  then have "base ?s AND NOT (MASK e) \<noteq> 0"
    by auto
  moreover have "IsValid e (EnumBitSet_raw e (push_bit v 1 :: 'a word))"
    by (rule IsValid_raw)
  ultimately show ?thesis by simp
qed

theorem Set_does_not_mask_witness:
  "\<not> IsValid 5 (Set (EnumBitSet_default :: 16 word EnumBitSet) 9)
   \<and> base (Set (EnumBitSet_default :: 16 word EnumBitSet) 9) AND NOT (MASK 5) \<noteq> 0
   \<and> IsValid 5 (EnumBitSet_raw 5 (push_bit 9 1 :: 16 word))"
  using Set_does_not_mask [where 'a = 16 and e = 5 and v = 9]
  by simp

end
